theory Spec2Isabelle
  imports Complex_Main
begin

section \<open>Python values, errors and sequence operations\<close>

text \<open>
  The exceptions the modelled code can raise. A function that can raise returns
  \<open>py_error + 'a\<close>, with \<open>Inl\<close> for the exception.

  A Python float is modelled as the real number it holds, and arithmetic on floats as
  exact arithmetic on reals: the rounding of a sum, a mean or a square is not modelled.
  What the model keeps of doubles is where the code's behaviour changes kind: NumPy's
  \<open>nan\<close> (the mean of an empty slice), the overflow of an \<open>int\<close> that is converted to a
  double, the underflow of a power, a quotient or a square to \<open>0.0\<close>, and a step or a draw
  that is infinite. The floats passed to the code are finite doubles, and the float zero
  is the positive one. The memory and the time that a list needs are not modelled: lists
  are unbounded. Sizes are those of a platform where the C types \<open>long\<close> and \<open>npy_intp\<close>
  have 64 bits.
\<close>

datatype py_error =
  KeyError | IndexError | ValueError | TypeError | ZeroDivisionError | OverflowError

text \<open>\<open>range(n)\<close>: empty when \<open>n \<le> 0\<close>.\<close>

definition py_range :: "int \<Rightarrow> nat list" where
  "py_range n = [0..<nat n]"

text \<open>
  \<open>xs[a:b]\<close>: a negative bound counts from the end, and both bounds are clipped
  to the sequence.
\<close>

definition slice_py :: "'a list \<Rightarrow> int \<Rightarrow> int \<Rightarrow> 'a list" where
  "slice_py xs a b =
     (let n = int (length xs);
          lo = (if a < 0 then max 0 (a + n) else min a n);
          hi = (if b < 0 then max 0 (b + n) else min b n)
      in drop (nat lo) (take (nat hi) xs))"

text \<open>\<open>xs[i]\<close>: a negative index counts from the end; out of range raises IndexError.\<close>

definition py_nth :: "'a list \<Rightarrow> int \<Rightarrow> py_error + 'a" where
  "py_nth xs i =
     (let n = int (length xs); j = (if i < 0 then i + n else i)
      in if 0 \<le> j \<and> j < n then Inr (xs ! nat j) else Inl IndexError)"

text \<open>The builtins \<open>max\<close> and \<open>min\<close> of a sequence: ValueError when it is empty.\<close>

fun py_max :: "real list \<Rightarrow> py_error + real" where
  "py_max [] = Inl ValueError"
| "py_max (x # xs) = Inr (fold max xs x)"

fun py_min :: "real list \<Rightarrow> py_error + real" where
  "py_min [] = Inl ValueError"
| "py_min (x # xs) = Inr (fold min xs x)"

text \<open>
  The value of \<open>np.mean\<close>: \<open>nan\<close> on an empty sequence, and otherwise the arithmetic mean,
  here without the rounding of the double sum and quotient.
\<close>

datatype npfloat = NaN | Num real

definition np_mean :: "real list \<Rightarrow> npfloat" where
  "np_mean xs = (if xs = [] then NaN else Num (sum_list xs / real (length xs)))"

section \<open>The transition detector\<close>

text \<open>\<open>max(section) - min(section)\<close>.\<close>

definition sig_range :: "real list \<Rightarrow> py_error + real" where
  "sig_range section =
     (case py_max section of
        Inl e \<Rightarrow> Inl e
      | Inr hi \<Rightarrow> (case py_min section of Inl e \<Rightarrow> Inl e | Inr lo \<Rightarrow> Inr (hi - lo)))"

text \<open>
  The first loop of \<open>transition_detector\<close>, over the remaining window indices, with the
  list \<open>ranges\<close> built so far.
\<close>

fun window_ranges :: "real list \<Rightarrow> int \<Rightarrow> nat list \<Rightarrow> real list \<Rightarrow> py_error + real list" where
  "window_ranges signal window_size [] ranges = Inr ranges"
| "window_ranges signal window_size (i # rest) ranges =
     (case sig_range (slice_py signal (int i) (int i + window_size)) of
        Inl e \<Rightarrow> Inl e
      | Inr r \<Rightarrow> window_ranges signal window_size rest (ranges @ [r]))"

text \<open>
  The second loop, over the remaining indices \<open>i\<close>, with the list \<open>events\<close> built so far.
  The test reads \<open>ranges[i-1]\<close> with Python's indexing: at \<open>i = 0\<close> that is
  \<open>ranges[-1]\<close>, the last range.
\<close>

fun scan_events :: "real list \<Rightarrow> int \<Rightarrow> real \<Rightarrow> nat list \<Rightarrow> int list \<Rightarrow> py_error + int list" where
  "scan_events ranges window_size threshold [] events = Inr events"
| "scan_events ranges window_size threshold (i # rest) events =
     (case py_nth ranges (int i - 1) of
        Inl e \<Rightarrow> Inl e
      | Inr prev \<Rightarrow>
         (case py_nth ranges (int i) of
            Inl e \<Rightarrow> Inl e
          | Inr cur \<Rightarrow>
              scan_events ranges window_size threshold rest
                (if prev < threshold \<and> cur > threshold
                 then events @ [int i + window_size div 2] else events)))"

text \<open>
  \<open>transition_detector(signal, window_size, threshold)\<close>. The parameter \<open>threshold\<close> is
  overwritten by the constant 0.03 before the second loop, as in the source.
\<close>

definition transition_detector :: "real list \<Rightarrow> int \<Rightarrow> real \<Rightarrow> py_error + (int list \<times> real list)" where
  "transition_detector signal window_size threshold =
     (case window_ranges signal window_size
             (py_range (int (length signal) - window_size + 1)) [] of
        Inl e \<Rightarrow> Inl e
      | Inr ranges \<Rightarrow>
         (let threshold = 3 / 100 in
          case scan_events ranges window_size threshold (py_range (int (length ranges))) [0] of
            Inl e \<Rightarrow> Inl e
          | Inr events \<Rightarrow> Inr (events @ [int (length signal)], ranges)))"

section \<open>Event means\<close>

text \<open>
  \<open>extract_event_means(signal, events)\<close>. The indices \<open>i\<close> and \<open>i + 1\<close> are below
  \<open>len(events)\<close> in every iteration, so the reads of \<open>events\<close> cannot raise.
\<close>

definition extract_event_means :: "real list \<Rightarrow> int list \<Rightarrow> npfloat list" where
  "extract_event_means signal events =
     map (\<lambda>i. let start_idx = (if i = 0 then 0 else events ! i + 1);
                  end_idx = events ! (i + 1)
              in np_mean (slice_py signal start_idx end_idx))
         (py_range (int (length events) - 1))"

section \<open>The pore simulator\<close>

text \<open>
  A Python number: the simulator tells an \<open>int\<close> from a \<open>float\<close> where it calls
  \<open>range\<close>, which accepts integers only.
\<close>

datatype pynum = PyInt int | PyFloat real

fun num_val :: "pynum \<Rightarrow> real" where
  "num_val (PyInt n) = of_int n"
| "num_val (PyFloat x) = x"

text \<open>
  A number is converted to a double when it is divided by or into a float, or passed to a
  NumPy function. A value of magnitude \<open>2\<^sup>1\<^sup>0\<^sup>2\<^sup>4 - 2\<^sup>9\<^sup>7\<^sup>0\<close> or more rounds beyond the largest
  finite double; for an \<open>int\<close> the conversion then raises OverflowError. A \<open>float\<close> is a
  finite double already.
\<close>

definition double_overflow :: "real \<Rightarrow> bool" where
  "double_overflow x = (2 ^ 1024 - 2 ^ 970 \<le> \<bar>x\<bar>)"

text \<open>
  A result of magnitude \<open>2\<^sup>-\<^sup>1\<^sup>0\<^sup>7\<^sup>5\<close> or less, half the smallest positive double, rounds to
  \<open>0.0\<close>.
\<close>

definition round_to_zero :: "real \<Rightarrow> real" where
  "round_to_zero x = (if \<bar>x\<bar> \<le> 1 / 2 ^ 1075 then 0 else x)"

text \<open>A double that is not \<open>nan\<close>: a finite one, or infinity.\<close>

datatype double = Finite real | Infinite

definition as_double :: "pynum \<Rightarrow> py_error + real" where
  "as_double y =
     (case y of
        PyInt n \<Rightarrow> if double_overflow (of_int n) then Inl OverflowError else Inr (of_int n)
      | PyFloat x \<Rightarrow> Inr x)"

text \<open>
  \<open>1.0 / y\<close>: the conversion of \<open>y\<close>, then the test for zero. (For a float \<open>y\<close> of
  magnitude below \<open>2\<^sup>-\<^sup>1\<^sup>0\<^sup>2\<^sup>4\<close> the double quotient is infinite; the model keeps the real
  quotient.)
\<close>

definition reciprocal :: "pynum \<Rightarrow> py_error + real" where
  "reciprocal y =
     (case as_double y of
        Inl e \<Rightarrow> Inl e
      | Inr v \<Rightarrow> if v = 0 then Inl ZeroDivisionError else Inr (1 / v))"

text \<open>
  \<open>y / 2\<close>: for an \<open>int\<close> the quotient of two integers, which raises OverflowError when
  it rounds beyond the largest finite double.
\<close>

definition half :: "pynum \<Rightarrow> py_error + real" where
  "half y =
     (case y of
        PyInt n \<Rightarrow> if double_overflow (of_int n / 2) then Inl OverflowError
                   else Inr (of_int n / 2)
      | PyFloat x \<Rightarrow> Inr (x / 2))"

text \<open>\<open>int(np.round(x))\<close>: NumPy rounds a half to the even neighbour.\<close>

definition np_round :: "real \<Rightarrow> int" where
  "np_round x =
     (let f = \<lfloor>x\<rfloor>; d = x - of_int f
      in if d < 1 / 2 then f else if 1 / 2 < d then f + 1 else if even f then f else f + 1)"

definition ALPHABET :: string where
  "ALPHABET = ''ACGT''"

definition NUCLEOTIDE_ORDER :: "char \<rightharpoonup> nat" where
  "NUCLEOTIDE_ORDER = map_of [(CHR ''A'', 0), (CHR ''C'', 1), (CHR ''G'', 2), (CHR ''T'', 3)]"

text \<open>
  The random sources are inputs of the model. A value of type \<open>draws\<close> holds what
  \<open>np.random.normal\<close>, \<open>np.random.gamma\<close> and \<open>np.random.poisson\<close> would return at one
  call of a dwell process. A normal draw around a finite mean is finite; a gamma draw is
  the scale times a variate, which for a scale near the top of the double range is
  infinite; a Poisson draw is a count. The properties below hold for every such value.
\<close>

record draws =
  normal_value :: real
  gamma_value :: double
  poisson_value :: nat

subsection \<open>The dwell processes\<close>

text \<open>
  The four entries of the dictionary \<open>DWELL\<close>.
  \<^item> \<open>fixed\<close> returns its argument.
  \<^item> \<open>normal\<close>: NumPy converts the mean to a double, draws, and the code rounds and clamps.
  \<^item> \<open>gamma\<close>: the code computes \<open>mean_dwell / 2\<close>, NumPy raises ValueError for a negative
    scale, and \<open>int\<close> of an infinite draw raises OverflowError.
  \<^item> \<open>poisson\<close>: NumPy converts the mean to a double and raises ValueError when it is
    negative or above its largest mean, the double \<open>9223372006484770816\<close> where the C type
    \<open>long\<close> has 64 bits (\<open>2\<^sup>6\<^sup>3\<close> less ten times its square root, in doubles). The doubles
    around it are 1024 apart, so an \<open>int\<close> of up to 512 more converts to that double and
    passes.
\<close>

definition dwell_fixed :: "pynum \<Rightarrow> draws \<Rightarrow> py_error + pynum" where
  "dwell_fixed mean_dwell d = Inr mean_dwell"

definition dwell_normal :: "pynum \<Rightarrow> draws \<Rightarrow> py_error + pynum" where
  "dwell_normal mean_dwell d =
     (case as_double mean_dwell of
        Inl e \<Rightarrow> Inl e
      | Inr loc \<Rightarrow> Inr (PyInt (max 0 (np_round (normal_value d)))))"

definition dwell_gamma :: "pynum \<Rightarrow> draws \<Rightarrow> py_error + pynum" where
  "dwell_gamma mean_dwell d =
     (case half mean_dwell of
        Inl e \<Rightarrow> Inl e
      | Inr scale \<Rightarrow>
          if scale < 0 then Inl ValueError
          else (case gamma_value d of
                  Infinite \<Rightarrow> Inl OverflowError
                | Finite g \<Rightarrow> Inr (PyInt (np_round g))))"

definition POISSON_LAM_MAX :: int where
  "POISSON_LAM_MAX = 9223372006484770816"

definition dwell_poisson :: "pynum \<Rightarrow> draws \<Rightarrow> py_error + pynum" where
  "dwell_poisson mean_dwell d =
     (case as_double mean_dwell of
        Inl e \<Rightarrow> Inl e
      | Inr lam \<Rightarrow>
          if lam < 0 then Inl ValueError
          else if (case mean_dwell of
                     PyInt n \<Rightarrow> POISSON_LAM_MAX + 512 < n
                   | PyFloat x \<Rightarrow> of_int POISSON_LAM_MAX < x) then Inl ValueError
          else Inr (PyInt (int (poisson_value d))))"

definition DWELL :: "string \<rightharpoonup> (pynum \<Rightarrow> draws \<Rightarrow> py_error + pynum)" where
  "DWELL = map_of [(''fixed'', dwell_fixed), (''normal'', dwell_normal),
                   (''gamma'', dwell_gamma), (''poisson'', dwell_poisson)]"

text \<open>\<open>DWELL[name](mean_dwell)\<close>.\<close>

definition DWELL_call :: "string \<Rightarrow> pynum \<Rightarrow> draws \<Rightarrow> py_error + pynum" where
  "DWELL_call name mean_dwell d =
     (case DWELL name of None \<Rightarrow> Inl KeyError | Some process \<Rightarrow> process mean_dwell d)"

subsection \<open>The noise processes\<close>

text \<open>
  The two entries of \<open>NOISE\<close>. The argument \<open>nz\<close> gives the components of the vector that
  \<open>np.random.normal(0, amp, len(signal))\<close> returns; NumPy raises ValueError for a negative
  standard deviation, whatever the length.
\<close>

definition noise_clean :: "real list \<Rightarrow> real \<Rightarrow> (nat \<Rightarrow> real) \<Rightarrow> py_error + real list" where
  "noise_clean signal amp nz = Inr (replicate (length signal) 0)"

definition noise_normal :: "real list \<Rightarrow> real \<Rightarrow> (nat \<Rightarrow> real) \<Rightarrow> py_error + real list" where
  "noise_normal signal amp nz =
     (if amp < 0 then Inl ValueError else Inr (map nz [0..<length signal]))"

definition NOISE :: "string \<rightharpoonup> (real list \<Rightarrow> real \<Rightarrow> (nat \<Rightarrow> real) \<Rightarrow> py_error + real list)" where
  "NOISE = map_of [(''clean'', noise_clean), (''normal'', noise_normal)]"

subsection \<open>The current level models\<close>

text \<open>
  \<open>len(ALPHABET) ** kmer_len\<close>: an \<open>int\<close> for a non-negative exponent, a \<open>float\<close> for a
  negative one, which underflows to \<open>0.0\<close> from the exponent \<open>-538\<close> down.
\<close>

definition alphabet_power :: "int \<Rightarrow> pynum" where
  "alphabet_power kmer_len =
     (if 0 \<le> kmer_len then PyInt (int (length ALPHABET) ^ nat kmer_len)
      else PyFloat (round_to_zero (1 / real (length ALPHABET) ^ nat (- kmer_len))))"

text \<open>
  \<open>1 / len(ALPHABET) ** kmer_len\<close>, the step of the \<open>even_space\<close> model. The quotient of
  1 by an \<open>int\<close> underflows to \<open>0.0\<close> (from \<open>kmer_len = 538\<close> up); the quotient of 1 by a
  \<open>float\<close> raises ZeroDivisionError for \<open>0.0\<close> and overflows to infinity without an
  exception (from \<open>kmer_len = -512\<close> down).
\<close>

definition even_space_step :: "int \<Rightarrow> py_error + double" where
  "even_space_step kmer_len =
     (case alphabet_power kmer_len of
        PyInt n \<Rightarrow> Inr (Finite (round_to_zero (1 / of_int n)))
      | PyFloat x \<Rightarrow>
          if x = 0 then Inl ZeroDivisionError
          else if double_overflow (1 / x) then Inr Infinite
          else Inr (Finite (1 / x)))"

text \<open>
  \<open>np.arange(0, 1, step)\<close> for a step that is not negative. NumPy divides 1 by the step
  to find the length: ZeroDivisionError for the step \<open>0.0\<close>, and ValueError for a length
  whose size in bytes, eight per entry, does not fit \<open>npy_intp\<close>; a quotient of zero, for
  an infinite step, gives the length 1. The entries are the values \<open>i * step\<close> below 1.
\<close>

definition np_arange_0_1 :: "double \<Rightarrow> py_error + real list" where
  "np_arange_0_1 step =
     (case step of
        Infinite \<Rightarrow> Inr [0]
      | Finite s \<Rightarrow>
          if s = 0 then Inl ZeroDivisionError
          else if 2 ^ 60 \<le> \<lceil>1 / s\<rceil> then Inl ValueError
          else Inr (map (\<lambda>i. real i * s) [0..<nat \<lceil>1 / s\<rceil>]))"

text \<open>A list comprehension over a function that can raise: the first exception ends it.\<close>

fun comprehension :: "('a \<Rightarrow> py_error + 'b) \<Rightarrow> 'a list \<Rightarrow> py_error + 'b list" where
  "comprehension f [] = Inr []"
| "comprehension f (x # xs) =
     (case f x of
        Inl e \<Rightarrow> Inl e
      | Inr y \<Rightarrow> (case comprehension f xs of Inl e \<Rightarrow> Inl e | Inr ys \<Rightarrow> Inr (y # ys)))"

text \<open>The loop of \<open>serial_resistor_model\<close>, with the number of iterations left.\<close>

fun conductance_loop :: "nat \<Rightarrow> nat \<Rightarrow> real \<Rightarrow> real" where
  "conductance_loop 0 kmer conductance = conductance"
| "conductance_loop (Suc n) kmer conductance =
     conductance_loop n (drop_bit 2 kmer)
       (conductance + real (and kmer 3) / real (length ALPHABET - 1))"

definition serial_resistor_model :: "nat \<Rightarrow> int \<Rightarrow> py_error + real" where
  "serial_resistor_model kmer kmer_len =
     (let conductance = conductance_loop (nat kmer_len) kmer 0
      in if kmer_len = 0 then Inl ZeroDivisionError
         else Inr (conductance / of_int kmer_len))"

text \<open>
  The three entries of \<open>CURRENT_LEVELS\<close>. The argument \<open>rnd\<close> gives the successive values
  of \<open>random.random()\<close>. \<open>range\<close> of a float raises TypeError.
\<close>

definition levels_even_space :: "int \<Rightarrow> (nat \<Rightarrow> real) \<Rightarrow> py_error + real list" where
  "levels_even_space kmer_len rnd =
     (case even_space_step kmer_len of
        Inl e \<Rightarrow> Inl e
      | Inr step \<Rightarrow> np_arange_0_1 step)"

definition levels_random :: "int \<Rightarrow> (nat \<Rightarrow> real) \<Rightarrow> py_error + real list" where
  "levels_random kmer_len rnd =
     (case alphabet_power kmer_len of
        PyFloat _ \<Rightarrow> Inl TypeError
      | PyInt n \<Rightarrow> Inr (map rnd (py_range n)))"

definition levels_resistor_model :: "int \<Rightarrow> (nat \<Rightarrow> real) \<Rightarrow> py_error + real list" where
  "levels_resistor_model kmer_len rnd =
     (case alphabet_power kmer_len of
        PyFloat _ \<Rightarrow> Inl TypeError
      | PyInt n \<Rightarrow> comprehension (\<lambda>k. serial_resistor_model k kmer_len) (py_range n))"

definition CURRENT_LEVELS :: "string \<rightharpoonup> (int \<Rightarrow> (nat \<Rightarrow> real) \<Rightarrow> py_error + real list)" where
  "CURRENT_LEVELS = map_of [(''even_space'', levels_even_space), (''random'', levels_random),
                            (''resistor_model'', levels_resistor_model)]"

subsection \<open>The class Pore\<close>

record pore =
  kmer_len :: int
  mean_dwell_time :: pynum
  noise_amplitude :: real
  signal_noise_process :: "real list \<Rightarrow> real \<Rightarrow> (nat \<Rightarrow> real) \<Rightarrow> py_error + real list"
  dwell_distribution_process :: "pynum \<Rightarrow> draws \<Rightarrow> py_error + pynum"
  current_levels :: "real list"

text \<open>
  \<open>Pore.__init__\<close>, in the order of its assignments: \<open>1.0 / signal_to_noise\<close>, then the
  three dictionary lookups, then the call of the level model.
\<close>

definition Pore_init ::
  "int \<Rightarrow> pynum \<Rightarrow> pynum \<Rightarrow> string \<Rightarrow> string \<Rightarrow> string \<Rightarrow> (nat \<Rightarrow> real) \<Rightarrow> py_error + pore" where
  "Pore_init kmer_len' mean_dwell_time' signal_to_noise signal_noise_process'
       dwell_distribution_process' current_level_model rnd =
     (case reciprocal signal_to_noise of
        Inl e \<Rightarrow> Inl e
      | Inr amplitude \<Rightarrow>
         (case NOISE signal_noise_process' of
            None \<Rightarrow> Inl KeyError
          | Some noise \<Rightarrow>
             (case DWELL dwell_distribution_process' of
                None \<Rightarrow> Inl KeyError
              | Some dwell \<Rightarrow>
                 (case CURRENT_LEVELS current_level_model of
                    None \<Rightarrow> Inl KeyError
                  | Some model \<Rightarrow>
                     (case model kmer_len' rnd of
                        Inl e \<Rightarrow> Inl e
                      | Inr levels \<Rightarrow>
                          Inr \<lparr>kmer_len = kmer_len', mean_dwell_time = mean_dwell_time',
                               noise_amplitude = amplitude,
                               signal_noise_process = noise,
                               dwell_distribution_process = dwell,
                               current_levels = levels\<rparr>)))))"

text \<open>\<open>Pore._kmer_index\<close>: the loop over \<open>kmer[1:]\<close>, then the method.\<close>

fun kmer_index_loop :: "string \<Rightarrow> nat \<Rightarrow> py_error + nat" where
  "kmer_index_loop [] lexical_order = Inr lexical_order"
| "kmer_index_loop (k # rest) lexical_order =
     (case NUCLEOTIDE_ORDER k of
        None \<Rightarrow> Inl KeyError
      | Some v \<Rightarrow> kmer_index_loop rest (push_bit 2 lexical_order + v))"

definition kmer_index :: "string \<Rightarrow> py_error + nat" where
  "kmer_index kmer =
     (case kmer of
        [] \<Rightarrow> Inl IndexError
      | c # rest \<Rightarrow>
         (case NUCLEOTIDE_ORDER c of
            None \<Rightarrow> Inl KeyError
          | Some v \<Rightarrow> kmer_index_loop rest v))"

text \<open>
  The loop of \<open>Pore.generate_signal\<close> over the remaining window positions, with the
  signal and the alignment built so far; \<open>dw i\<close> holds the draws of the dwell process at
  position \<open>i\<close>. \<open>range(dwell_time)\<close> raises TypeError for a float and is empty for a
  count that is not positive; the level is read only when a sample is appended.
\<close>

fun generate_loop ::
  "pore \<Rightarrow> (nat \<Rightarrow> draws) \<Rightarrow> string \<Rightarrow> nat list \<Rightarrow> real list \<Rightarrow> int list
     \<Rightarrow> py_error + (real list \<times> int list)" where
  "generate_loop p dw dna_sequence [] signal alignment = Inr (signal, alignment)"
| "generate_loop p dw dna_sequence (i # rest) signal alignment =
     (let kmer = slice_py dna_sequence (int i) (int i + kmer_len p) in
      case kmer_index kmer of
        Inl e \<Rightarrow> Inl e
      | Inr index \<Rightarrow>
         (case dwell_distribution_process p (mean_dwell_time p) (dw i) of
            Inl e \<Rightarrow> Inl e
          | Inr (PyFloat _) \<Rightarrow> Inl TypeError
          | Inr (PyInt dwell_time) \<Rightarrow>
              if 0 < dwell_time \<and> length (current_levels p) \<le> index then Inl IndexError
              else
                let signal' = signal @ replicate (nat dwell_time) (current_levels p ! index)
                in generate_loop p dw dna_sequence rest signal'
                     (alignment @ [max 0 (int (length signal') - 1)])))"

text \<open>
  \<open>Pore.generate_signal(dna_sequence, return_alignment=True)\<close>: the noise vector is drawn
  once, for the whole signal, and added to it. Without \<open>return_alignment\<close> the method
  returns the first component only.
\<close>

definition generate_signal ::
  "pore \<Rightarrow> (nat \<Rightarrow> draws) \<Rightarrow> (nat \<Rightarrow> real) \<Rightarrow> string \<Rightarrow> py_error + (real list \<times> int list)" where
  "generate_signal p dw nz dna_sequence =
     (case generate_loop p dw dna_sequence
             (py_range (int (length dna_sequence) - kmer_len p + 1)) [] [0] of
        Inl e \<Rightarrow> Inl e
      | Inr (signal, alignment) \<Rightarrow>
         (case signal_noise_process p signal (noise_amplitude p) nz of
            Inl e \<Rightarrow> Inl e
          | Inr noise \<Rightarrow> Inr (map2 (+) signal noise, alignment)))"

text \<open>
  \<open>Pore.kmer_table\<close>: the labels are \<open>itertools.product('ACGT', repeat=kmer_len)\<close>, in
  lexicographic order (a negative \<open>repeat\<close> raises ValueError), zipped with the levels.
  The labels are pairwise distinct, so the dictionary built from the pairs keeps all of
  them, in this order; it is modelled as the list of pairs.
\<close>

definition kmer_table :: "pore \<Rightarrow> py_error + (string \<times> real) list" where
  "kmer_table p =
     (if kmer_len p < 0 then Inl ValueError
      else let labels = product_lists (replicate (nat (kmer_len p)) ''ACGT'')
           in Inr (zip labels (current_levels p)))"

section \<open>The decoder\<close>







section \<open>Notions for the end-to-end property\<close>


text \<open>
  The shape of a signal generated without noise and with a fixed dwell: \<open>dn\<close> copies of
  the level of each of \<open>n\<close> windows. The range of the window of three samples at \<open>i\<close>.
\<close>

definition block_signal :: "(nat \<Rightarrow> real) \<Rightarrow> nat \<Rightarrow> nat \<Rightarrow> real list" where
  "block_signal lv dn n = concat (map (\<lambda>j. replicate dn (lv j)) [0..<n])"


text \<open>
  The boundaries that the detector found: its events without the leading 0 and the
  trailing \<open>len(signal)\<close> that bracket them.
\<close>

definition detected_boundaries :: "int list \<Rightarrow> int list" where
  "detected_boundaries events = butlast (tl events)"

section \<open>The segmenter's emission rule as the specification words it\<close>

text \<open>
  Written from the specification, not from the code, for comparison with
  \<open>transition_detector\<close>: scanning \<open>i\<close> from 1 upward, a boundary is emitted at
  window index \<open>i\<close> when \<open>range\<^sub>i\<^sub>-\<^sub>1 < t\<close> and \<open>range\<^sub>i \<ge> t\<close>, for the threshold \<open>t\<close> passed
  by the caller.
\<close>

definition spec_boundary_emitted :: "real list \<Rightarrow> real \<Rightarrow> nat \<Rightarrow> bool" where
  "spec_boundary_emitted ranges t i = (ranges ! (i - 1) < t \<and> t \<le> ranges ! i)"

section \<open>Sample inputs\<close>

text \<open>
  Inputs at which the theorems below are instantiated: a random source that always
  returns 0, one outcome of the three dwell draws, and the pore that
  \<open>Pore(kmer_len=1, mean_dwell_time=3, signal_noise_process="clean",
  dwell_distribution_process="fixed", current_level_model="even_space")\<close> constructs.
\<close>

definition zeros :: "nat \<Rightarrow> real" where
  "zeros j = 0"

definition sample_draws :: draws where
  "sample_draws = \<lparr>normal_value = - 3 / 2, gamma_value = Finite (5 / 2), poisson_value = 7\<rparr>"

definition constant_draws :: "nat \<Rightarrow> draws" where
  "constant_draws i = sample_draws"

definition sample_pore :: pore where
  "sample_pore = \<lparr>kmer_len = 1, mean_dwell_time = PyInt 3, noise_amplitude = 1 / 250,
                   signal_noise_process = noise_clean, dwell_distribution_process = dwell_fixed,
                   current_levels = [0, 1 / 4, 1 / 2, 3 / 4]\<rparr>"

text \<open>
  The pore that \<open>Pore(kmer_len=2, mean_dwell_time=3, signal_noise_process="clean",
  dwell_distribution_process="fixed", current_level_model="even_space")\<close> constructs.
\<close>

definition two_mer_pore :: pore where
  "two_mer_pore = \<lparr>kmer_len = 2, mean_dwell_time = PyInt 3, noise_amplitude = 1 / 250,
                    signal_noise_process = noise_clean, dwell_distribution_process = dwell_fixed,
                    current_levels = [0, 1 / 16, 1 / 8, 3 / 16, 1 / 4, 5 / 16, 3 / 8, 7 / 16,
                                      1 / 2, 9 / 16, 5 / 8, 11 / 16, 3 / 4, 13 / 16, 7 / 8, 15 / 16]\<rparr>"

section \<open>Properties of the segmenter and of the event means\<close>

subsection \<open>Python sequence operations on natural indices\<close>


lemma slice_py_nat: "slice_py xs (int a) (int b) = drop a (take b xs)"
proof -
  have "drop (min a (length xs)) (take (min b (length xs)) xs) = drop a (take b xs)"
    by (cases "a \<le> length xs"; cases "b \<le> length xs") (simp_all add: min_def)
  moreover have "nat (min (int a) (int (length xs))) = min a (length xs)"
    and "nat (min (int b) (int (length xs))) = min b (length xs)"
    by (simp_all add: min_def)
  ultimately show ?thesis
    by (simp add: slice_py_def Let_def del: drop_take)
qed

lemma slice_py_window:
  assumes "1 \<le> w"
  shows "slice_py xs (int i) (int i + w) = take (nat w) (drop i xs)"
proof -
  have "int i + w = int (i + nat w)" using assms by simp
  then have "slice_py xs (int i) (int i + w) = drop i (take (i + nat w) xs)"
    by (simp only: slice_py_nat)
  then show ?thesis by (simp add: drop_take)
qed

lemma py_max_Max: "xs \<noteq> [] \<Longrightarrow> py_max xs = Inr (Max (set xs))"
proof (cases xs)
  case (Cons a list)
  show ?thesis unfolding Cons by (simp only: py_max.simps Max.set_eq_fold)
qed simp

lemma py_min_Min: "xs \<noteq> [] \<Longrightarrow> py_min xs = Inr (Min (set xs))"
proof (cases xs)
  case (Cons a list)
  show ?thesis unfolding Cons by (simp only: py_min.simps Min.set_eq_fold)
qed simp

lemma sig_range_nonempty: "xs \<noteq> [] \<Longrightarrow> sig_range xs = Inr (Max (set xs) - Min (set xs))"
  by (simp add: sig_range_def py_max_Max py_min_Min)

lemma sig_range_empty: "sig_range [] = Inl ValueError"
  by (simp add: sig_range_def)

lemma window_ranges_ok:
  assumes "1 \<le> w" and "\<forall>i\<in>set js. i < length signal"
  shows "window_ranges signal w js acc =
           Inr (acc @ map (\<lambda>i. Max (set (take (nat w) (drop i signal)))
                               - Min (set (take (nat w) (drop i signal)))) js)"
  using assms(2)
proof (induction js arbitrary: acc)
  case Nil
  then show ?case by simp
next
  case (Cons i js)
  from Cons.prems have "i < length signal" by simp
  with assms(1) have "take (nat w) (drop i signal) \<noteq> []" by simp
  then show ?case using Cons assms(1)
    by (simp add: slice_py_window sig_range_nonempty)
qed

lemma py_nth_nat: "i < length xs \<Longrightarrow> py_nth xs (int i) = Inr (xs ! i)"
  by (simp add: py_nth_def)

lemma py_nth_prev:
  "i < length xs \<Longrightarrow>
   py_nth xs (int i - 1) = Inr (if i = 0 then xs ! (length xs - 1) else xs ! (i - 1))"
proof -
  assume i: "i < length xs"
  have "nat (int (length xs) - 1) = length xs - 1" by simp
  moreover have "i \<noteq> 0 \<Longrightarrow> nat (int i - 1) = i - 1" by simp
  ultimately show ?thesis using i
    by (auto simp: py_nth_def Let_def)
qed

lemma scan_events_ok:
  assumes "\<forall>i\<in>set js. i < length ranges"
  shows "scan_events ranges w th js events =
           Inr (events @ map (\<lambda>i. int i + w div 2)
                  (filter (\<lambda>i. (if i = 0 then ranges ! (length ranges - 1) else ranges ! (i - 1)) < th
                                \<and> th < ranges ! i) js))"
  using assms
proof (induction js arbitrary: events)
  case Nil
  then show ?case by simp
next
  case (Cons i js)
  from Cons.prems have i: "i < length ranges" by simp
  show ?case using Cons
    by (simp add: py_nth_nat[OF i] py_nth_prev[OF i])
qed

lemma transition_detector_ok:
  fixes signal :: "real list" and w :: int
  assumes "1 \<le> w"
  defines "n \<equiv> nat (int (length signal) - w + 1)"
  defines "ranges \<equiv> map (\<lambda>i. Max (set (take (nat w) (drop i signal)))
                               - Min (set (take (nat w) (drop i signal)))) [0..<n]"
  shows "transition_detector signal w t =
           Inr (0 # map (\<lambda>i. int i + w div 2)
                  (filter (\<lambda>i. (if i = 0 then ranges ! (length ranges - 1) else ranges ! (i - 1)) < 3 / 100
                                \<and> 3 / 100 < ranges ! i) [0..<n]) @ [int (length signal)], ranges)"
proof -
  have "\<forall>i\<in>set [0..<n]. i < length signal" using assms(1) by (auto simp: n_def)
  then have w: "window_ranges signal w [0..<n] [] = Inr ranges"
    using window_ranges_ok[OF assms(1), of "[0..<n]" signal "[]"] by (simp add: ranges_def)
  have len: "length ranges = n" by (simp add: ranges_def)
  have "\<forall>i\<in>set [0..<n]. i < length ranges" by (simp add: len)
  from scan_events_ok[OF this, of w "3/100" "[0]"] w len show ?thesis
    by (simp add: transition_detector_def py_range_def n_def[symmetric])
qed

text \<open>
  What the scan does at the window indices from 1 on, for any threshold argument: the
  comparison is against the constant that the function assigns.
\<close>

lemma transition_detector_boundaries:
  fixes signal :: "real list" and w :: int
  assumes "2 \<le> w"
  shows "\<exists>events ranges.
           transition_detector signal w t = Inr (events, ranges)
         \<and> length ranges = nat (int (length signal) - w + 1)
         \<and> (\<forall>j<length ranges.
               ranges ! j = Max (set (slice_py signal (int j) (int j + w)))
                          - Min (set (slice_py signal (int j) (int j + w))))
         \<and> (\<forall>i. 1 \<le> i \<and> i < length ranges \<longrightarrow>
               (int i + w div 2 \<in> set events
                  \<longleftrightarrow> ranges ! (i - 1) < 3 / 100 \<and> 3 / 100 < ranges ! i))"
proof -
  define n where "n = nat (int (length signal) - w + 1)"
  define ranges where "ranges = map (\<lambda>i. Max (set (take (nat w) (drop i signal)))
                               - Min (set (take (nat w) (drop i signal)))) [0..<n]"
  define P where "P = (\<lambda>i. (if i = 0 then ranges ! (length ranges - 1) else ranges ! (i - 1)) < 3 / 100
                                \<and> 3 / 100 < ranges ! i)"
  define events where "events = 0 # map (\<lambda>i. int i + w div 2) (filter P [0..<n]) @ [int (length signal)]"
  have w1: "1 \<le> w" using assms by simp
  have td: "transition_detector signal w t = Inr (events, ranges)"
    using transition_detector_ok[OF w1, of signal t]
    by (simp add: events_def ranges_def n_def P_def)
  have len: "length ranges = n" by (simp add: ranges_def)
  have rng: "\<forall>j<length ranges.
               ranges ! j = Max (set (slice_py signal (int j) (int j + w)))
                          - Min (set (slice_py signal (int j) (int j + w)))"
    by (simp add: ranges_def slice_py_window[OF w1])
  have mem: "int i + w div 2 \<in> set events \<longleftrightarrow> ranges ! (i - 1) < 3 / 100 \<and> 3 / 100 < ranges ! i"
    if i: "1 \<le> i" "i < length ranges" for i
  proof -
    have h: "0 < w div 2" using assms by simp
    have "int i + w \<le> int (length signal)" using i(2) len by (simp add: n_def)
    moreover have "w div 2 < w" using assms by simp
    ultimately have ne_len: "int i + w div 2 \<noteq> int (length signal)" by linarith
    have ne0: "int i + w div 2 \<noteq> 0" using h by linarith
    have "int i + w div 2 \<in> set events \<longleftrightarrow> (\<exists>j<n. P j \<and> int j + w div 2 = int i + w div 2)"
      using ne_len ne0 by (auto simp: events_def)
    also have "\<dots> \<longleftrightarrow> P i" using i(2) len by auto
    also have "\<dots> \<longleftrightarrow> ranges ! (i - 1) < 3 / 100 \<and> 3 / 100 < ranges ! i"
      using i(1) by (simp add: P_def)
    finally show ?thesis .
  qed
  from td len rng mem show ?thesis unfolding n_def by blast
qed

subsection \<open>Claims about the transition detector\<close>

text \<open>
  C3. The result of \<open>transition_detector\<close> (the events and the ranges) is the same for any
  two values of its threshold argument: the function overwrites the argument with the
  constant 0.03 before the scan.
\<close>

theorem threshold_argument_ignored:
  "transition_detector signal window_size t1 = transition_detector signal window_size t2"
  by (simp add: transition_detector_def)

text \<open>
  C2, as amended. For every signal and every window size \<open>w \<ge> 2\<close>, with the threshold
  \<open>t = 0.03\<close> passed to the detector, the detector returns; \<open>range\<^sub>j\<close> is the maximum minus
  the minimum of \<open>signal[j:j+w]\<close>, for each \<open>j\<close> in \<open>[0, len(signal) - w]\<close>; and for each
  window index \<open>i \<ge> 1\<close> the boundary \<open>i + w div 2\<close> is among the events exactly when
  \<open>range\<^sub>i\<^sub>-\<^sub>1 < t\<close> and \<open>range\<^sub>i > t\<close>, a strict comparison on both sides. Nothing is said
  about window index 0 or about another threshold argument.
\<close>

theorem boundary_emitted_iff:
  fixes signal :: "real list" and w :: int
  assumes "2 \<le> w" and "t = 3 / 100"
  shows "\<exists>events ranges.
           transition_detector signal w t = Inr (events, ranges)
         \<and> length ranges = nat (int (length signal) - w + 1)
         \<and> (\<forall>j<length ranges.
               ranges ! j = Max (set (slice_py signal (int j) (int j + w)))
                          - Min (set (slice_py signal (int j) (int j + w))))
         \<and> (\<forall>i. 1 \<le> i \<and> i < length ranges \<longrightarrow>
               (int i + w div 2 \<in> set events
                  \<longleftrightarrow> ranges ! (i - 1) < t \<and> t < ranges ! i))"
  using transition_detector_boundaries[OF assms(1), of signal t] unfolding assms(2) .

text \<open>
  The theorem at the signal \<open>[0, 0, 0.1, 0.1]\<close>, window size 2, threshold 0.03 and window
  index 1.
\<close>

theorem boundary_emitted_iff_witness:
  "transition_detector [0, 0, 1/10, 1/10] 2 (3/100) = Inr ([0, 2, 4], [0, 1/10, 0])
   \<and> (int 1 + 2 div 2 \<in> set [0, 2, 4::int]
        \<longleftrightarrow> [0, 1/10, 0::real] ! (1 - 1) < 3 / 100 \<and> 3 / 100 < [0, 1/10, 0::real] ! 1)"
proof -
  have e: "transition_detector [0, 0, 1/10, 1/10] 2 (3/100) = Inr ([0, 2, 4], [0, 1/10, 0])"
    by code_simp
  have "(2::int) \<le> 2" "(3 / 100 :: real) = 3 / 100" by simp_all
  from boundary_emitted_iff[OF this, of "[0, 0, 1/10, 1/10]"] e
  have "\<forall>i. 1 \<le> i \<and> i < length [0, 1/10, 0::real] \<longrightarrow>
               (int i + 2 div 2 \<in> set [0, 2, 4::int]
                  \<longleftrightarrow> [0, 1/10, 0::real] ! (i - 1) < 3 / 100 \<and> 3 / 100 < [0, 1/10, 0::real] ! i)"
    by simp
  then have "int 1 + 2 div 2 \<in> set [0, 2, 4::int]
        \<longleftrightarrow> [0, 1/10, 0::real] ! (1 - 1) < 3 / 100 \<and> 3 / 100 < [0, 1/10, 0::real] ! 1"
    by (rule allE[of _ 1]) simp
  with e show ?thesis by blast
qed

text \<open>
  C2 as stated fails. With the threshold argument 0.5 the rule of the specification emits
  nothing at window index 1 of \<open>[0, 0, 0.1, 0.1]\<close> (the range 0.1 is below 0.5), and the
  code emits the boundary 2. With the threshold argument 0.03 the rule of the specification
  emits at window index 1 of \<open>[0, 0, 0.03, 0.03]\<close> (the range equals the threshold), and
  the code emits nothing.
\<close>

theorem boundary_emitted_counterexample:
  "transition_detector [0, 0, 1/10, 1/10] 2 (1/2) = Inr ([0, 2, 4], [0, 1/10, 0])
   \<and> int 1 + 2 div 2 \<in> set [0, 2, 4::int]
   \<and> \<not> spec_boundary_emitted [0, 1/10, 0] (1/2) 1
   \<and> transition_detector [0, 0, 3/100, 3/100] 2 (3/100) = Inr ([0, 4], [0, 3/100, 0])
   \<and> int 1 + 2 div 2 \<notin> set [0, 4::int]
   \<and> spec_boundary_emitted [0, 3/100, 0] (3/100) 1"
  by (simp add: spec_boundary_emitted_def transition_detector_def py_range_def slice_py_def
        sig_range_def py_nth_def upt_conv_Cons)

text \<open>
  C4. The claim is that no boundary is ever emitted for window index 0. On the signal
  \<open>[0, 1, 1, 1]\<close> with window size 2 the code emits the boundary \<open>0 + 2 div 2 = 1\<close>: at
  \<open>i = 0\<close> the test reads \<open>ranges[-1]\<close>, the range of the last window (0, below 0.03),
  against \<open>ranges[0] = 1\<close>. No other window index can give it: at \<open>i = 1\<close> and \<open>i = 2\<close>
  the current range is 0.
\<close>

theorem first_window_boundary:
  "transition_detector [0, 1, 1, 1] 2 t = Inr ([0, 0 + 2 div 2, 4], [1, 0, 0])"
  by (simp add: transition_detector_def py_range_def slice_py_def
        sig_range_def py_nth_def upt_conv_Cons)

subsection \<open>Claims about the event means\<close>

text \<open>
  C5, as amended. For every signal and boundary list, there is one mean per adjacent pair of
  boundaries, and the mean of event \<open>i\<close> is the arithmetic mean of
  \<open>signal[start:events[i+1]]\<close>, where \<open>start\<close> is 0 for the first event (index 0 is
  included) and \<open>events[i] + 1\<close> for every other event (the boundary sample is left out);
  the mean of an empty span is \<open>nan\<close>.
\<close>

theorem extract_event_means_span:
  "length (extract_event_means signal events) = length events - 1
   \<and> (\<forall>i<length events - 1.
        extract_event_means signal events ! i =
          (let span = slice_py signal (if i = 0 then 0 else events ! i + 1) (events ! (i + 1))
           in if span = [] then NaN else Num (sum_list span / real (length span))))"
proof (intro conjI allI impI)
  have m: "nat (int (length events) - 1) = length events - 1" by simp
  show "length (extract_event_means signal events) = length events - 1"
    by (simp add: extract_event_means_def py_range_def m)
  fix i assume i: "i < length events - 1"
  then have "[0..<length events - 1] ! i = i" by simp
  with i show "extract_event_means signal events ! i =
          (let span = slice_py signal (if i = 0 then 0 else events ! i + 1) (events ! (i + 1))
           in if span = [] then NaN else Num (sum_list span / real (length span)))"
    by (simp add: extract_event_means_def py_range_def m np_mean_def Let_def)
qed

text \<open>The theorem at the signal \<open>[1, 3]\<close> with the boundaries \<open>[0, 2]\<close>, first event.\<close>

theorem extract_event_means_span_witness:
  "extract_event_means [1, 3] [0, 2] ! 0 = Num 2"
proof -
  have "(0::nat) < length [0, 2::int] - 1" by simp
  with extract_event_means_span[of "[1, 3]" "[0, 2]"]
  have "extract_event_means [1, 3] [0, 2] ! 0 =
          (let span = slice_py [1, 3::real] (if (0::nat) = 0 then 0 else [0, 2] ! 0 + 1) ([0, 2] ! (0 + 1))
           in if span = [] then NaN else Num (sum_list span / real (length span)))"
    by blast
  then show ?thesis by (simp add: slice_py_def)
qed

text \<open>
  C5 as stated fails: on the signal \<open>[1, 3]\<close> with the boundaries \<open>[0, 2]\<close> the first mean is
  that of \<open>signal[0:2]\<close>, which is 2; a span without index 0 would give 3.
\<close>

theorem first_event_span_counterexample:
  "extract_event_means [1, 3] [0, 2] = [np_mean (slice_py [1, 3] 0 2)]
   \<and> np_mean (slice_py [1, 3] 0 2) = Num 2
   \<and> np_mean (slice_py [1, 3] 1 2) = Num 3"
  by (simp add: extract_event_means_def py_range_def slice_py_def np_mean_def)

subsection \<open>The last detected boundary and the last event\<close>

lemma detected_boundaries_ok:
  fixes signal :: "real list" and w :: int
  assumes "1 \<le> w" and "transition_detector signal w t = Inr (events, ranges)"
  shows "\<exists>js. (\<forall>i\<in>set js. int i \<le> int (length signal) - w)
             \<and> events = 0 # map (\<lambda>i. int i + w div 2) js @ [int (length signal)]
             \<and> detected_boundaries events = map (\<lambda>i. int i + w div 2) js"
proof -
  define n where "n = nat (int (length signal) - w + 1)"
  from transition_detector_ok[OF assms(1), of signal t] assms(2) obtain P where
    ev: "events = 0 # map (\<lambda>i. int i + w div 2) (filter P [0..<n]) @ [int (length signal)]"
    unfolding n_def by auto
  have "\<forall>i\<in>set (filter P [0..<n]). int i \<le> int (length signal) - w"
    by (auto simp: n_def)
  moreover have "detected_boundaries events = map (\<lambda>i. int i + w div 2) (filter P [0..<n])"
    unfolding ev detected_boundaries_def by (simp add: butlast_append)
  ultimately show ?thesis using ev by blast
qed

lemma detected_boundary_bounds:
  fixes signal :: "real list" and w :: int
  assumes "3 \<le> w" and "transition_detector signal w t = Inr (events, ranges)"
    and "b \<in> set (detected_boundaries events)"
  shows "1 \<le> b \<and> b + 2 \<le> int (length signal)"
proof -
  from assms(1) have "1 \<le> w" by simp
  from detected_boundaries_ok[OF this assms(2)] obtain js where
    js: "\<forall>i\<in>set js. int i \<le> int (length signal) - w"
        "detected_boundaries events = map (\<lambda>i. int i + w div 2) js"
    by blast
  from assms(3) obtain i where i: "i \<in> set js" "b = int i + w div 2"
    unfolding js(2) by auto
  from js(1) i(1) have "int i \<le> int (length signal) - w" by blast
  with assms(1) i(2) show ?thesis by presburger
qed

lemma np_mean_NaN: "np_mean xs = NaN \<longleftrightarrow> xs = []"
  by (simp add: np_mean_def)

lemma last_event_span:
  fixes signal :: "real list" and w :: int
  assumes "3 \<le> w" and "transition_detector signal w t = Inr (events, ranges)"
    and "detected_boundaries events \<noteq> []"
  shows "last (detected_boundaries events) \<le> int (length signal) - 2
       \<and> slice_py signal (last (detected_boundaries events) + 1) (int (length signal)) \<noteq> []
       \<and> last (extract_event_means signal events) \<noteq> NaN"
proof -
  define bs where "bs = detected_boundaries events"
  define b where "b = last bs"
  define m where "m = length bs"
  from assms(1) have "1 \<le> w" by simp
  from detected_boundaries_ok[OF this assms(2)]
  have ev: "events = 0 # bs @ [int (length signal)]" unfolding bs_def by auto
  have ne: "bs \<noteq> []" using assms(3) by (simp add: bs_def)
  then have "b \<in> set bs" by (simp add: b_def)
  from detected_boundary_bounds[OF assms(1,2) this[unfolded bs_def]]
  have b: "1 \<le> b" "b + 2 \<le> int (length signal)" by simp_all
  define a where "a = nat (b + 1)"
  have a: "b + 1 = int a" "a < length signal" using b by (simp_all add: a_def)
  have "slice_py signal (int a) (int (length signal)) = drop a signal"
    by (simp add: slice_py_nat)
  with a(2) have span: "slice_py signal (b + 1) (int (length signal)) \<noteq> []"
    unfolding a(1) by simp
  have m: "1 \<le> m" using ne by (cases bs) (simp_all add: m_def)
  have em: "events ! m = b"
    using m ne by (cases m) (simp_all add: ev nth_append m_def b_def last_conv_nth)
  have el: "events ! Suc m = int (length signal)"
    by (simp add: ev nth_append m_def)
  have "nat (int (length events) - 1) = Suc m" by (simp add: ev m_def)
  then have "last (extract_event_means signal events)
      = (let start_idx = (if m = 0 then 0 else events ! m + 1); end_idx = events ! (m + 1)
         in np_mean (slice_py signal start_idx end_idx))"
    by (simp add: extract_event_means_def py_range_def)
  also have "\<dots> = np_mean (slice_py signal (b + 1) (int (length signal)))"
    using m by (simp add: em el)
  finally have "last (extract_event_means signal events) \<noteq> NaN"
    using span by (simp add: np_mean_NaN)
  with b(2) span show ?thesis unfolding b_def bs_def by simp
qed

text \<open>
  C10, as amended. With the window size 2 the signal \<open>[0, 0, 1]\<close> has the detected
  boundary 2, which is \<open>len(signal) - 1\<close>: the span of the last event, from that boundary
  plus one to \<open>len(signal)\<close>, is empty and its mean is \<open>nan\<close>. With a window size of 3 or
  more, as in the decoder, which passes 3, this never happens: for every signal the last
  detected boundary, when there is one, is at most \<open>len(signal) - 2\<close>, the span of the last
  event is not empty and its mean is not \<open>nan\<close>.
\<close>

theorem last_event_span_by_window_size:
  "(transition_detector [0, 0, 1] 2 t = Inr ([0, 2, 3], [0, 1])
     \<and> detected_boundaries [0, 2, 3] = [2]
     \<and> last (detected_boundaries [0, 2, 3]) = int (length [0, 0, 1 :: real]) - 1
     \<and> slice_py [0, 0, 1 :: real] (last (detected_boundaries [0, 2, 3]) + 1)
          (int (length [0, 0, 1 :: real])) = []
     \<and> extract_event_means [0, 0, 1] [0, 2, 3] = [Num 0, NaN])
   \<and> (3 \<le> w \<and> transition_detector signal w t = Inr (events, ranges)
        \<and> detected_boundaries events \<noteq> [] \<longrightarrow>
          last (detected_boundaries events) \<le> int (length signal) - 2
        \<and> slice_py signal (last (detected_boundaries events) + 1) (int (length signal)) \<noteq> []
        \<and> last (extract_event_means signal events) \<noteq> NaN)"
proof (intro conjI impI)
  show "transition_detector [0, 0, 1] 2 t = Inr ([0, 2, 3], [0, 1])"
    by (simp add: transition_detector_def py_range_def slice_py_def
        sig_range_def py_nth_def upt_conv_Cons)
  show "detected_boundaries [0, 2, 3] = [2]" by (simp add: detected_boundaries_def)
  show "last (detected_boundaries [0, 2, 3]) = int (length [0, 0, 1 :: real]) - 1"
    by (simp add: detected_boundaries_def)
  show "slice_py [0, 0, 1 :: real] (last (detected_boundaries [0, 2, 3]) + 1)
          (int (length [0, 0, 1 :: real])) = []"
    by (simp add: detected_boundaries_def slice_py_def)
  show "extract_event_means [0, 0, 1] [0, 2, 3] = [Num 0, NaN]"
    by (simp add: extract_event_means_def py_range_def slice_py_def np_mean_def upt_conv_Cons)
next
  assume a: "3 \<le> w \<and> transition_detector signal w t = Inr (events, ranges)
        \<and> detected_boundaries events \<noteq> []"
  then have "3 \<le> w" "transition_detector signal w t = Inr (events, ranges)"
    "detected_boundaries events \<noteq> []" by simp_all
  from last_event_span[OF this]
  show "last (detected_boundaries events) \<le> int (length signal) - 2"
    and "slice_py signal (last (detected_boundaries events) + 1) (int (length signal)) \<noteq> []"
    and "last (extract_event_means signal events) \<noteq> NaN" by simp_all
qed

text \<open>
  The theorem at the window size 3 and the signal \<open>[0, 0, 0, 1, 1, 1]\<close>: the detected
  boundary is 2, and the last event has the three samples from index 3 on.
\<close>

theorem last_event_span_by_window_size_witness:
  "transition_detector [0, 0, 0, 1, 1, 1] 3 (3 / 100) = Inr ([0, 2, 6], [0, 1, 1, 0])
   \<and> detected_boundaries [0, 2, 6] = [2]
   \<and> last (detected_boundaries [0, 2, 6]) \<le> int (length [0, 0, 0, 1, 1, 1 :: real]) - 2
   \<and> slice_py [0, 0, 0, 1, 1, 1 :: real] (last (detected_boundaries [0, 2, 6]) + 1)
        (int (length [0, 0, 0, 1, 1, 1 :: real])) \<noteq> []
   \<and> last (extract_event_means [0, 0, 0, 1, 1, 1] [0, 2, 6]) \<noteq> NaN"
proof -
  have td: "transition_detector [0, 0, 0, 1, 1, 1] 3 (3 / 100) = Inr ([0, 2, 6], [0, 1, 1, 0])"
    by (simp add: transition_detector_def py_range_def slice_py_def
        sig_range_def py_nth_def upt_conv_Cons)
  have db: "detected_boundaries [0, 2, 6] = [2]" by (simp add: detected_boundaries_def)
  then have "(3::int) \<le> 3
      \<and> transition_detector [0, 0, 0, 1, 1, 1] 3 (3 / 100) = Inr ([0, 2, 6], [0, 1, 1, 0])
      \<and> detected_boundaries [0, 2, 6] \<noteq> []"
    using td by simp
  with last_event_span_by_window_size[where w = 3 and signal = "[0, 0, 0, 1, 1, 1]"
      and t = "3 / 100" and events = "[0, 2, 6]" and ranges = "[0, 1, 1, 0]"]
  have "last (detected_boundaries [0, 2, 6]) \<le> int (length [0, 0, 0, 1, 1, 1 :: real]) - 2
   \<and> slice_py [0, 0, 0, 1, 1, 1 :: real] (last (detected_boundaries [0, 2, 6]) + 1)
        (int (length [0, 0, 0, 1, 1, 1 :: real])) \<noteq> []
   \<and> last (extract_event_means [0, 0, 0, 1, 1, 1] [0, 2, 6]) \<noteq> NaN"
    by blast
  with td db show ?thesis by blast
qed

text \<open>
  C10 as stated fails at the window size that the decoder passes: with
  \<open>window_size = 3\<close> no signal has a last detected boundary equal to \<open>len(signal) - 1\<close>.
\<close>

theorem last_boundary_counterexample:
  "\<not> (\<exists>signal t events ranges.
         transition_detector signal 3 t = Inr (events, ranges)
       \<and> detected_boundaries events \<noteq> []
       \<and> last (detected_boundaries events) = int (length signal) - 1)"
proof
  assume "\<exists>signal t events ranges.
         transition_detector signal 3 t = Inr (events, ranges)
       \<and> detected_boundaries events \<noteq> []
       \<and> last (detected_boundaries events) = int (length signal) - 1"
  then obtain signal :: "real list" and t events ranges where
    a: "transition_detector signal 3 t = Inr (events, ranges)"
       "detected_boundaries events \<noteq> []"
       "last (detected_boundaries events) = int (length signal) - 1"
    by blast
  have "(3::int) \<le> 3" by simp
  from last_event_span[OF this a(1,2)] a(3) show False by simp
qed
section \<open>Properties of the pore simulator\<close>

lemma np_round_nonneg: "0 \<le> x \<Longrightarrow> 0 \<le> np_round x"
proof -
  assume "0 \<le> x"
  then have "0 \<le> \<lfloor>x\<rfloor>" by simp
  then show ?thesis by (simp add: np_round_def Let_def)
qed

lemma DWELL_simps:
  "DWELL ''fixed'' = Some dwell_fixed" "DWELL ''normal'' = Some dwell_normal"
  "DWELL ''gamma'' = Some dwell_gamma" "DWELL ''poisson'' = Some dwell_poisson"
  by (simp_all add: DWELL_def)

lemma DWELL_None:
  "name \<notin> {''fixed'', ''normal'', ''gamma'', ''poisson''} \<longleftrightarrow> DWELL name = None"
  by (simp add: DWELL_def)

lemma NOISE_simps: "NOISE ''clean'' = Some noise_clean" "NOISE ''normal'' = Some noise_normal"
  by (simp_all add: NOISE_def)

lemma NOISE_None: "name \<notin> {''clean'', ''normal''} \<longleftrightarrow> NOISE name = None"
  by (simp add: NOISE_def)

lemma CURRENT_LEVELS_simps:
  "CURRENT_LEVELS ''even_space'' = Some levels_even_space"
  "CURRENT_LEVELS ''random'' = Some levels_random"
  "CURRENT_LEVELS ''resistor_model'' = Some levels_resistor_model"
  by (simp_all add: CURRENT_LEVELS_def)

lemma CURRENT_LEVELS_None:
  "name \<notin> {''even_space'', ''random'', ''resistor_model''} \<longleftrightarrow> CURRENT_LEVELS name = None"
  by (simp add: CURRENT_LEVELS_def)

lemma np_round_of_int: "np_round (of_int n) = n"
  by (simp add: np_round_def)

lemma as_double_bounded:
  "\<bar>num_val mean_dwell\<bar> \<le> 9 * 10 ^ 18 \<Longrightarrow> as_double mean_dwell = Inr (num_val mean_dwell)"
  by (cases mean_dwell) (simp_all add: as_double_def double_overflow_def)

lemma half_bounded:
  "\<bar>num_val mean_dwell\<bar> \<le> 9 * 10 ^ 18 \<Longrightarrow> half mean_dwell = Inr (num_val mean_dwell / 2)"
  by (cases mean_dwell) (simp_all add: half_def double_overflow_def)

lemma dwell_normal_bounded:
  assumes "\<bar>num_val mean_dwell\<bar> \<le> 9 * 10 ^ 18"
  shows "dwell_normal mean_dwell d = Inr (PyInt (max 0 (np_round (normal_value d))))"
  by (simp add: dwell_normal_def as_double_bounded[OF assms])

lemma dwell_gamma_bounded:
  assumes "0 \<le> num_val mean_dwell" "num_val mean_dwell \<le> 9 * 10 ^ 18"
    and "gamma_value d = Finite g"
  shows "dwell_gamma mean_dwell d = Inr (PyInt (np_round g))"
proof -
  from assms(1,2) have "\<bar>num_val mean_dwell\<bar> \<le> 9 * 10 ^ 18" by simp
  from half_bounded[OF this] assms(1,3) show ?thesis by (simp add: dwell_gamma_def)
qed

lemma dwell_poisson_bounded:
  assumes "0 \<le> num_val mean_dwell" "num_val mean_dwell \<le> 9 * 10 ^ 18"
  shows "dwell_poisson mean_dwell d = Inr (PyInt (int (poisson_value d)))"
proof -
  from assms have "\<bar>num_val mean_dwell\<bar> \<le> 9 * 10 ^ 18" by simp
  note c = as_double_bounded[OF this]
  show ?thesis
  proof (cases mean_dwell)
    case (PyInt n)
    with assms(2) have "n \<le> 9 * 10 ^ 18" by simp
    then have "\<not> POISSON_LAM_MAX + 512 < n" by (simp add: POISSON_LAM_MAX_def)
    with PyInt assms(1) c show ?thesis by (simp add: dwell_poisson_def)
  next
    case (PyFloat x)
    with assms(2) have "\<not> of_int POISSON_LAM_MAX < x" by (simp add: POISSON_LAM_MAX_def)
    with PyFloat assms(1) c show ?thesis by (simp add: dwell_poisson_def)
  qed
qed

text \<open>
  C6, as amended. For every non-negative integer mean dwell value the \<open>fixed\<close> policy
  returns the mean, which rounding leaves unchanged, a non-negative integer. For a mean
  of magnitude at most \<open>9 \<cdot> 10\<^sup>1\<^sup>8\<close> the \<open>normal\<close> policy returns a non-negative integer,
  whatever the draw. For a non-negative mean of at most \<open>9 \<cdot> 10\<^sup>1\<^sup>8\<close> the \<open>poisson\<close> policy
  returns a non-negative integer, and so does the \<open>gamma\<close> policy when the mean is an
  integer or a positive float (NumPy rejects the scale \<open>-0.0\<close>) and the draw is finite
  and non-negative, as every gamma draw with such a scale is. Nothing is said about the
  \<open>fixed\<close> policy at a mean that is not a non-negative integer, nor about a larger mean:
  from \<open>2\<^sup>1\<^sup>0\<^sup>2\<^sup>4\<close> the conversion of an integer mean to a double raises OverflowError, and
  above about \<open>9.22 \<cdot> 10\<^sup>1\<^sup>8\<close> the \<open>poisson\<close> policy raises ValueError.
\<close>

theorem dwell_policies:
  "(\<forall>n\<ge>0. DWELL_call ''fixed'' (PyInt n) d = Inr (PyInt (np_round (of_int n)))
           \<and> 0 \<le> np_round (real_of_int n))
   \<and> (\<bar>num_val mean_dwell\<bar> \<le> 9 * 10 ^ 18 \<longrightarrow>
        (\<exists>m\<ge>0. DWELL_call ''normal'' mean_dwell d = Inr (PyInt m)))
   \<and> (0 \<le> num_val mean_dwell \<and> num_val mean_dwell \<le> 9 * 10 ^ 18 \<longrightarrow>
        (\<forall>g\<ge>0. (0 < num_val mean_dwell \<or> mean_dwell = PyInt 0) \<and> gamma_value d = Finite g \<longrightarrow>
           (\<exists>m\<ge>0. DWELL_call ''gamma'' mean_dwell d = Inr (PyInt m)))
        \<and> (\<exists>m\<ge>0. DWELL_call ''poisson'' mean_dwell d = Inr (PyInt m)))"
proof (intro conjI allI impI)
  fix n :: int assume "0 \<le> n"
  show "DWELL_call ''fixed'' (PyInt n) d = Inr (PyInt (np_round (of_int n)))"
    by (simp add: DWELL_call_def DWELL_simps dwell_fixed_def np_round_of_int)
  show "0 \<le> np_round (real_of_int n)" using \<open>0 \<le> n\<close> by (simp add: np_round_of_int)
next
  assume "\<bar>num_val mean_dwell\<bar> \<le> 9 * 10 ^ 18"
  from dwell_normal_bounded[OF this, of d]
  show "\<exists>m\<ge>0. DWELL_call ''normal'' mean_dwell d = Inr (PyInt m)"
    by (simp add: DWELL_call_def DWELL_simps)
next
  fix g :: real
  assume m: "0 \<le> num_val mean_dwell \<and> num_val mean_dwell \<le> 9 * 10 ^ 18"
    and g: "0 \<le> g"
    and "(0 < num_val mean_dwell \<or> mean_dwell = PyInt 0) \<and> gamma_value d = Finite g"
  then have "gamma_value d = Finite g" by simp
  from dwell_gamma_bounded[OF _ _ this, of mean_dwell] m np_round_nonneg[OF g]
  show "\<exists>m\<ge>0. DWELL_call ''gamma'' mean_dwell d = Inr (PyInt m)"
    by (simp add: DWELL_call_def DWELL_simps)
next
  assume m: "0 \<le> num_val mean_dwell \<and> num_val mean_dwell \<le> 9 * 10 ^ 18"
  then have "dwell_poisson mean_dwell d = Inr (PyInt (int (poisson_value d)))"
    by (intro dwell_poisson_bounded) simp_all
  then show "\<exists>m\<ge>0. DWELL_call ''poisson'' mean_dwell d = Inr (PyInt m)"
    by (simp add: DWELL_call_def DWELL_simps)
qed

lemma comprehension_ok:
  "(\<And>x. x \<in> set xs \<Longrightarrow> f x = Inr (g x)) \<Longrightarrow> comprehension f xs = Inr (map g xs)"
  by (induction xs) simp_all

lemma levels_random_ok: "(\<exists>levels. levels_random k rnd = Inr levels) \<longleftrightarrow> 0 \<le> k"
  by (simp add: levels_random_def alphabet_power_def)

lemma levels_resistor_model_ok: "(\<exists>levels. levels_resistor_model k rnd = Inr levels) \<longleftrightarrow> 1 \<le> k"
proof (cases "1 \<le> k")
  case True
  then have "serial_resistor_model m k = Inr (conductance_loop (nat k) m 0 / of_int k)" for m
    by (simp add: serial_resistor_model_def)
  then have "comprehension (\<lambda>m. serial_resistor_model m k) xs
               = Inr (map (\<lambda>m. conductance_loop (nat k) m 0 / of_int k) xs)" for xs
    by (intro comprehension_ok) simp
  with True show ?thesis by (simp add: levels_resistor_model_def alphabet_power_def)
next
  case False
  show ?thesis
  proof (cases "k = 0")
    case True
    then show ?thesis
      by (simp add: levels_resistor_model_def alphabet_power_def py_range_def
            serial_resistor_model_def)
  next
    case False
    with \<open>\<not> 1 \<le> k\<close> have "k < 0" by simp
    then show ?thesis by (simp add: levels_resistor_model_def alphabet_power_def)
  qed
qed

lemma Pore_init_known:
  assumes "reciprocal s2n = Inr amplitude" "NOISE noise_name = Some nf"
     "DWELL dwell_name = Some df" "CURRENT_LEVELS level_name = Some lf"
  shows "Pore_init k m s2n noise_name dwell_name level_name rnd =
           (case lf k rnd of
              Inl e \<Rightarrow> Inl e
            | Inr levels \<Rightarrow>
                Inr \<lparr>kmer_len = k, mean_dwell_time = m, noise_amplitude = amplitude,
                     signal_noise_process = nf, dwell_distribution_process = df,
                     current_levels = levels\<rparr>)"
  using assms by (simp add: Pore_init_def)

lemma Pore_init_unknown:
  assumes "NOISE noise_name = None \<or> DWELL dwell_name = None
               \<or> CURRENT_LEVELS level_name = None"
  shows "Pore_init k m s2n noise_name dwell_name level_name rnd =
           (case reciprocal s2n of Inl e \<Rightarrow> Inl e | Inr amplitude \<Rightarrow> Inl KeyError)"
  using assms by (auto simp: Pore_init_def split: option.split sum.split)

lemma reciprocal_250: "reciprocal (PyInt 250) = Inr (1 / 250)"
  by (simp add: reciprocal_def as_double_def double_overflow_def)

text \<open>
  C7, as amended. Constructing a Pore with a noise, dwell or current-level policy name
  that is not a key of its dictionary fails at construction time: the constructor raises
  KeyError at the lookup, unless the division \<open>1.0 / signal_to_noise\<close> before it has
  raised already, and in no case returns a pore. The keys are \<open>clean\<close> and \<open>normal\<close>;
  \<open>fixed\<close>, \<open>normal\<close>, \<open>gamma\<close> and \<open>poisson\<close>; \<open>even_space\<close>, \<open>random\<close> and
  \<open>resistor_model\<close>. Nothing is said about the k-mer length, which the constructor does
  not check.
\<close>

theorem pore_init_unknown_policy:
  assumes "noise_name \<notin> {''clean'', ''normal''}
         \<or> dwell_name \<notin> {''fixed'', ''normal'', ''gamma'', ''poisson''}
         \<or> level_name \<notin> {''even_space'', ''random'', ''resistor_model''}"
  shows "Pore_init k m s2n noise_name dwell_name level_name rnd =
           (case reciprocal s2n of Inl e \<Rightarrow> Inl e | Inr amplitude \<Rightarrow> Inl KeyError)
       \<and> \<not> (\<exists>p. Pore_init k m s2n noise_name dwell_name level_name rnd = Inr p)"
proof -
  have "NOISE noise_name = None \<or> DWELL dwell_name = None \<or> CURRENT_LEVELS level_name = None"
    using assms
    unfolding NOISE_None[of noise_name] DWELL_None[of dwell_name]
      CURRENT_LEVELS_None[of level_name] .
  from Pore_init_unknown[OF this, of k m s2n rnd]
  have e: "Pore_init k m s2n noise_name dwell_name level_name rnd =
           (case reciprocal s2n of Inl e \<Rightarrow> Inl e | Inr amplitude \<Rightarrow> Inl KeyError)" .
  then have "\<not> (\<exists>p. Pore_init k m s2n noise_name dwell_name level_name rnd = Inr p)"
    by (cases "reciprocal s2n") simp_all
  with e show ?thesis by blast
qed

lemma NUCLEOTIDE_ORDER_alphabet:
  "c \<in> set ALPHABET \<Longrightarrow> \<exists>v<4. NUCLEOTIDE_ORDER c = Some v"
  by (auto simp: ALPHABET_def NUCLEOTIDE_ORDER_def)

lemma kmer_index_loop_ok:
  "set cs \<subseteq> set ALPHABET \<Longrightarrow> acc < 4 ^ m \<Longrightarrow>
   \<exists>idx. kmer_index_loop cs acc = Inr idx \<and> idx < 4 ^ (m + length cs)"
proof (induction cs arbitrary: acc m)
  case Nil
  then show ?case by simp
next
  case (Cons c cs)
  from Cons.prems(1) obtain v where v: "v < 4" "NUCLEOTIDE_ORDER c = Some v"
    using NUCLEOTIDE_ORDER_alphabet[of c] by auto
  have "push_bit 2 acc + v < 4 ^ Suc m"
    using Cons.prems(2) v(1) by (simp add: push_bit_eq_mult)
  from Cons.IH[OF _ this] Cons.prems(1) v(2) show ?case by simp
qed

lemma kmer_index_ok:
  assumes "kmer \<noteq> []" "set kmer \<subseteq> set ALPHABET"
  shows "\<exists>idx. kmer_index kmer = Inr idx \<and> idx < 4 ^ length kmer"
proof -
  from assms(1) obtain c cs where kmer: "kmer = c # cs" by (cases kmer) auto
  with assms(2) obtain v where v: "v < 4" "NUCLEOTIDE_ORDER c = Some v"
    using NUCLEOTIDE_ORDER_alphabet[of c] by auto
  have "v < 4 ^ 1" using v(1) by simp
  from kmer_index_loop_ok[OF _ this, of cs] assms(2) kmer v(2) show ?thesis
    by (simp add: kmer_index_def)
qed

lemma generate_loop_ok:
  assumes k: "1 \<le> kmer_len p"
    and tbl: "length (current_levels p) = 4 ^ nat (kmer_len p)"
    and dna: "set dna_sequence \<subseteq> set ALPHABET"
    and dwell: "\<forall>i. \<exists>n. dwell_distribution_process p (mean_dwell_time p) (dw i) = Inr (PyInt n)"
    and js: "\<forall>i\<in>set js. int i + kmer_len p \<le> int (length dna_sequence)"
  shows "\<exists>signal' al'. generate_loop p dw dna_sequence js signal al = Inr (signal', al @ al')
           \<and> length al' = length js \<and> sorted al'
           \<and> (\<forall>a\<in>set al'. max 0 (int (length signal) - 1) \<le> a)"
  using js
proof (induction js arbitrary: signal al)
  case Nil
  then show ?case by simp
next
  case (Cons i js)
  define kmer where "kmer = take (nat (kmer_len p)) (drop i dna_sequence)"
  have sl: "slice_py dna_sequence (int i) (int i + kmer_len p) = kmer"
    by (simp add: slice_py_window[OF k] kmer_def)
  from Cons.prems have i: "int i + kmer_len p \<le> int (length dna_sequence)" by simp
  then have len: "length kmer = nat (kmer_len p)" by (simp add: kmer_def)
  with k have ne: "kmer \<noteq> []" by auto
  have "set kmer \<subseteq> set dna_sequence"
    unfolding kmer_def by (meson set_take_subset set_drop_subset subset_trans)
  with dna have "set kmer \<subseteq> set ALPHABET" by blast
  from kmer_index_ok[OF ne this] len tbl obtain idx where
    idx: "kmer_index kmer = Inr idx" "idx < length (current_levels p)" by auto
  from dwell obtain n where n: "dwell_distribution_process p (mean_dwell_time p) (dw i) = Inr (PyInt n)"
    by blast
  define signal' where "signal' = signal @ replicate (nat n) (current_levels p ! idx)"
  define a where "a = max 0 (int (length signal') - 1)"
  have step: "generate_loop p dw dna_sequence (i # js) signal al
          = generate_loop p dw dna_sequence js signal' (al @ [a])"
    using idx n by (simp add: sl signal'_def a_def Let_def)
  from Cons.IH[of signal' "al @ [a]"] Cons.prems obtain s2 al2 where
    r: "generate_loop p dw dna_sequence js signal' (al @ [a]) = Inr (s2, (al @ [a]) @ al2)"
       "length al2 = length js" "sorted al2" "\<forall>x\<in>set al2. a \<le> x"
    unfolding a_def by auto
  have "length signal \<le> length signal'" by (simp add: signal'_def)
  then have mono: "max 0 (int (length signal) - 1) \<le> a" unfolding a_def by linarith
  have "generate_loop p dw dna_sequence (i # js) signal al = Inr (s2, al @ (a # al2))"
    using step r(1) by simp
  moreover have "length (a # al2) = length (i # js)" using r(2) by simp
  moreover have "sorted (a # al2)" using r(3,4) by simp
  moreover have "\<forall>x\<in>set (a # al2). max 0 (int (length signal) - 1) \<le> x"
    using mono r(4) by auto
  ultimately show ?case by blast
qed

text \<open>
  Whatever the pore and the draws, an alignment that \<open>generate_signal\<close> returns for a
  sequence of length \<open>L \<ge> kmer_len\<close> has \<open>L - kmer_len + 2\<close> entries, starts with 0 and is
  non-decreasing.
\<close>

lemma generate_loop_shape:
  "generate_loop p dw dna_sequence js signal al = Inr (signal', al'') \<Longrightarrow>
   \<exists>al'. al'' = al @ al' \<and> length al' = length js \<and> sorted al'
         \<and> (\<forall>a\<in>set al'. max 0 (int (length signal) - 1) \<le> a)"
proof (induction js arbitrary: signal al)
  case Nil
  then show ?case by simp
next
  case (Cons i js)
  from Cons.prems obtain index n where
    step: "generate_loop p dw dna_sequence js
             (signal @ replicate (nat n) (current_levels p ! index))
             (al @ [max 0 (int (length (signal @ replicate (nat n) (current_levels p ! index))) - 1)])
           = Inr (signal', al'')"
    by (auto simp: Let_def split: sum.splits pynum.splits if_splits)
  define s1 where "s1 = signal @ replicate (nat n) (current_levels p ! index)"
  define a where "a = max 0 (int (length s1) - 1)"
  from Cons.IH[of s1 "al @ [a]"] step obtain al2 where
    r: "al'' = (al @ [a]) @ al2" "length al2 = length js" "sorted al2" "\<forall>x\<in>set al2. a \<le> x"
    unfolding s1_def a_def by auto
  have "length signal \<le> length s1" by (simp add: s1_def)
  then have mono: "max 0 (int (length signal) - 1) \<le> a" unfolding a_def by linarith
  have "al'' = al @ (a # al2)" using r(1) by simp
  moreover have "length (a # al2) = length (i # js)" using r(2) by simp
  moreover have "sorted (a # al2)" using r(3,4) by simp
  moreover have "\<forall>x\<in>set (a # al2). max 0 (int (length signal) - 1) \<le> x"
    using mono r(4) by auto
  ultimately show ?case by blast
qed

lemma generate_signal_shape:
  assumes "generate_signal p dw nz dna_sequence = Inr (signal, alignment)"
    and "kmer_len p \<le> int (length dna_sequence)"
  shows "int (length alignment) = int (length dna_sequence) - kmer_len p + 2
         \<and> alignment ! 0 = 0 \<and> sorted alignment"
proof -
  from assms(1) obtain s where
    "generate_loop p dw dna_sequence (py_range (int (length dna_sequence) - kmer_len p + 1))
       [] [0] = Inr (s, alignment)"
    by (auto simp: generate_signal_def split: sum.splits)
  from generate_loop_shape[OF this] obtain al' where
    r: "alignment = [0] @ al'"
       "length al' = length (py_range (int (length dna_sequence) - kmer_len p + 1))"
       "sorted al'" "\<forall>a\<in>set al'. 0 \<le> a"
    by auto
  have "int (length alignment) = int (length dna_sequence) - kmer_len p + 2"
    using r(1,2) assms(2) by (simp add: py_range_def)
  moreover have "alignment ! 0 = 0" using r(1) by simp
  moreover have "sorted alignment" using r(1,3,4) by simp
  ultimately show ?thesis by blast
qed

text \<open>
  Each of the four dwell policies returns an integer count when the mean is non-negative
  and at most \<open>9 \<cdot> 10\<^sup>1\<^sup>8\<close>, the gamma draw is finite and, for \<open>fixed\<close>, the mean is an
  integer: the hypothesis on the dwell calls in the next theorem.
\<close>

lemma DWELL_returns_count:
  assumes "DWELL name = Some process"
    and "name = ''fixed'' \<Longrightarrow> \<exists>n. mean_dwell = PyInt n"
    and "0 \<le> num_val mean_dwell" "num_val mean_dwell \<le> 9 * 10 ^ 18"
    and "gamma_value d = Finite g"
  shows "\<exists>n. process mean_dwell d = Inr (PyInt n)"
proof -
  from assms(1) have "name \<in> {''fixed'', ''normal'', ''gamma'', ''poisson''}"
    using DWELL_None[of name] by simp
  then consider "name = ''fixed''" | "name = ''normal''" | "name = ''gamma''"
    | "name = ''poisson''" by blast
  then show ?thesis
  proof cases
    case 1
    with assms(1) have "process = dwell_fixed" by (simp add: DWELL_simps)
    with assms(2)[OF 1] show ?thesis by (auto simp: dwell_fixed_def)
  next
    case 2
    with assms(1) have "process = dwell_normal" by (simp add: DWELL_simps)
    moreover from assms(3,4) have "\<bar>num_val mean_dwell\<bar> \<le> 9 * 10 ^ 18" by simp
    ultimately show ?thesis by (simp add: dwell_normal_bounded)
  next
    case 3
    with assms(1) have "process = dwell_gamma" by (simp add: DWELL_simps)
    with dwell_gamma_bounded[OF assms(3,4,5)] show ?thesis by simp
  next
    case 4
    with assms(1) have "process = dwell_poisson" by (simp add: DWELL_simps)
    with dwell_poisson_bounded[OF assms(3,4)] show ?thesis by simp
  qed
qed

text \<open>
  C8. For a pore with \<open>kmer_len \<ge> 1\<close> and a level table of \<open>4 ^ kmer_len\<close> entries, every DNA
  sequence of length \<open>L \<ge> kmer_len\<close> and every outcome of the dwell draws (any integer
  counts, zero and negative ones included), \<open>generate_signal\<close> returns an alignment of
  length \<open>L - kmer_len + 2\<close> whose entry 0 is 0 and whose entries are non-decreasing.
\<close>

theorem generate_signal_alignment:
  assumes "1 \<le> kmer_len p"
    and "kmer_len p \<le> int (length dna_sequence)"
    and "set dna_sequence \<subseteq> set ALPHABET"
    and "length (current_levels p) = 4 ^ nat (kmer_len p)"
    and "\<forall>i. \<exists>n. dwell_distribution_process p (mean_dwell_time p) (dw i) = Inr (PyInt n)"
    and "signal_noise_process p = noise_clean
         \<or> signal_noise_process p = noise_normal \<and> 0 \<le> noise_amplitude p"
  shows "\<exists>signal alignment.
           generate_signal p dw nz dna_sequence = Inr (signal, alignment)
         \<and> int (length alignment) = int (length dna_sequence) - kmer_len p + 2
         \<and> alignment ! 0 = 0
         \<and> sorted alignment"
proof -
  define js where "js = py_range (int (length dna_sequence) - kmer_len p + 1)"
  have "\<forall>i\<in>set js. int i + kmer_len p \<le> int (length dna_sequence)"
    by (auto simp: js_def py_range_def)
  from generate_loop_ok[OF assms(1,4,3,5) this, of "[]" "[0]"] obtain s al' where
    r: "generate_loop p dw dna_sequence js [] [0] = Inr (s, [0] @ al')"
       "length al' = length js" "sorted al'" "\<forall>a\<in>set al'. 0 \<le> a"
    by auto
  from assms(6) obtain noise where
    nz: "signal_noise_process p s (noise_amplitude p) nz = Inr noise"
    by (auto simp: noise_clean_def noise_normal_def)
  have g: "generate_signal p dw nz dna_sequence = Inr (map2 (+) s noise, 0 # al')"
    using r(1) nz by (simp add: generate_signal_def js_def[symmetric])
  have "int (length (0 # al')) = int (length dna_sequence) - kmer_len p + 2"
    using r(2) assms(2) by (simp add: js_def py_range_def)
  moreover have "(0 # al') ! 0 = 0" by simp
  moreover have "sorted (0 # al')" using r(3,4) by simp
  ultimately show ?thesis using g by blast
qed

text \<open>
  C9. For every sequence shorter than \<open>kmer_len\<close>, also by more than one symbol,
  \<open>generate_signal\<close> raises nothing and returns the empty signal with the alignment \<open>[0]\<close>.
\<close>

theorem generate_signal_short_sequence:
  assumes "int (length dna_sequence) < kmer_len p"
    and "signal_noise_process p = noise_clean
         \<or> signal_noise_process p = noise_normal \<and> 0 \<le> noise_amplitude p"
  shows "generate_signal p dw nz dna_sequence = Inr ([], [0])"
proof -
  have "py_range (int (length dna_sequence) - kmer_len p + 1) = []"
    using assms(1) by (simp add: py_range_def)
  moreover have "signal_noise_process p [] (noise_amplitude p) nz = Inr []"
    using assms(2) by (auto simp: noise_clean_def noise_normal_def)
  ultimately show ?thesis by (simp add: generate_signal_def)
qed

lemma alphabet_power_nonneg: "0 \<le> k \<Longrightarrow> alphabet_power k = PyInt (4 ^ nat k)"
  by (simp add: alphabet_power_def ALPHABET_def)

lemma length_comprehension: "comprehension f xs = Inr ys \<Longrightarrow> length ys = length xs"
  by (induction xs arbitrary: ys) (auto split: sum.splits)

lemma levels_even_space_size:
  assumes "levels_even_space k rnd = Inr levels" "0 \<le> k"
  shows "length levels = 4 ^ nat k"
proof -
  define s where "s = round_to_zero (1 / real_of_int (4 ^ nat k))"
  have step: "even_space_step k = Inr (Finite s)"
    using assms(2) by (simp add: even_space_step_def alphabet_power_nonneg s_def)
  with assms(1) have a: "np_arange_0_1 (Finite s) = Inr levels"
    by (simp add: levels_even_space_def)
  then have s0: "s \<noteq> 0" by (auto simp: np_arange_0_1_def split: if_splits)
  then have s: "s = 1 / 4 ^ nat k"
    unfolding s_def round_to_zero_def by (simp split: if_splits)
  from a s0 have "levels = map (\<lambda>i. real i * s) [0..<nat \<lceil>1 / s\<rceil>]"
    by (auto simp: np_arange_0_1_def split: if_splits)
  then have "length levels = nat \<lceil>(4::real) ^ nat k\<rceil>" by (simp add: s)
  moreover have "\<lceil>(4::real) ^ nat k\<rceil> = 4 ^ nat k"
    by (metis ceiling_of_int of_int_numeral of_int_power)
  moreover have "nat ((4::int) ^ nat k) = 4 ^ nat k"
    by (metis nat_numeral nat_power_eq zero_le_numeral)
  ultimately show ?thesis by simp
qed

lemma level_model_table_size:
  assumes "CURRENT_LEVELS level_name = Some lf" "lf k rnd = Inr levels" "0 \<le> k"
  shows "length levels = 4 ^ nat k"
proof -
  from assms(1) have "level_name \<in> {''even_space'', ''random'', ''resistor_model''}"
    using CURRENT_LEVELS_None[of level_name] by simp
  then consider "level_name = ''even_space''" | "level_name = ''random''"
    | "level_name = ''resistor_model''" by blast
  then show ?thesis
  proof cases
    case 1
    with assms(1) have lf: "lf = levels_even_space" by (simp add: CURRENT_LEVELS_simps)
    from levels_even_space_size[OF assms(2)[unfolded lf] assms(3)] show ?thesis .
  next
    case 2
    with assms(1) have lf: "lf = levels_random" by (simp add: CURRENT_LEVELS_simps)
    have "nat ((4::int) ^ nat k) = 4 ^ nat k"
      by (metis nat_numeral nat_power_eq zero_le_numeral)
    with assms(2,3) show ?thesis
      unfolding lf by (auto simp: levels_random_def alphabet_power_nonneg py_range_def)
  next
    case 3
    with assms(1) have lf: "lf = levels_resistor_model" by (simp add: CURRENT_LEVELS_simps)
    have "nat ((4::int) ^ nat k) = 4 ^ nat k"
      by (metis nat_numeral nat_power_eq zero_le_numeral)
    with assms(2,3) show ?thesis
      unfolding lf
      by (auto simp: levels_resistor_model_def alphabet_power_nonneg py_range_def
            dest!: length_comprehension)
  qed
qed

lemma Pore_init_table_size:
  assumes "Pore_init k m s2n noise_name dwell_name level_name rnd = Inr p" "0 \<le> k"
  shows "kmer_len p = k \<and> length (current_levels p) = 4 ^ nat k"
proof -
  from assms(1) obtain amplitude nf df lf where s: "reciprocal s2n = Inr amplitude"
     "NOISE noise_name = Some nf" "DWELL dwell_name = Some df"
     "CURRENT_LEVELS level_name = Some lf"
    by (auto simp: Pore_init_def split: sum.splits option.splits)
  from assms(1) obtain levels where l: "lf k rnd = Inr levels"
     and p: "p = \<lparr>kmer_len = k, mean_dwell_time = m, noise_amplitude = amplitude,
                     signal_noise_process = nf, dwell_distribution_process = df,
                     current_levels = levels\<rparr>"
    unfolding Pore_init_known[OF s] by (cases "lf k rnd") auto
  from level_model_table_size[OF s(4) l assms(2)] p show ?thesis by simp
qed

lemma even_space_1: "levels_even_space 1 rnd = Inr [0, 1 / 4, 1 / 2, 3 / 4]"
  by (simp add: levels_even_space_def even_space_step_def alphabet_power_def ALPHABET_def
        round_to_zero_def np_arange_0_1_def upt_conv_Cons)

lemma sample_pore_constructed:
  "Pore_init 1 (PyInt 3) (PyInt 250) ''clean'' ''fixed'' ''even_space'' zeros = Inr sample_pore"
  by (simp add: Pore_init_def reciprocal_250 NOISE_simps DWELL_simps CURRENT_LEVELS_simps
        even_space_1 sample_pore_def)

text \<open>
  Where the double range ends. A mean of \<open>10\<^sup>1\<^sup>9\<close> is above the largest mean of
  \<open>np.random.poisson\<close>; an integer of \<open>10\<^sup>4\<^sup>0\<^sup>0\<close> cannot be converted to a double.
\<close>

lemma dwell_large_mean:
  "dwell_poisson (PyInt (10 ^ 19)) d = Inl ValueError"
  "dwell_poisson (PyInt (10 ^ 400)) d = Inl OverflowError"
  "dwell_gamma (PyInt (10 ^ 400)) d = Inl OverflowError"
  "dwell_normal (PyInt (10 ^ 400)) d = Inl OverflowError"
  by (simp_all add: dwell_poisson_def dwell_gamma_def dwell_normal_def as_double_def half_def
        double_overflow_def POISSON_LAM_MAX_def)

lemma Pore_init_large_signal_to_noise:
  "Pore_init k m (PyInt (10 ^ 400)) noise_name dwell_name level_name rnd = Inl OverflowError"
  by (simp add: Pore_init_def reciprocal_def as_double_def double_overflow_def)

lemma Pore_init_zero_signal_to_noise:
  "Pore_init k m (PyInt 0) noise_name dwell_name level_name rnd = Inl ZeroDivisionError"
  by (simp add: Pore_init_def reciprocal_def as_double_def double_overflow_def)

text \<open>
  The \<open>even_space\<close> model at the k-mer lengths where \<open>4 ** kmer_len\<close> or its reciprocal
  underflows, and where the table no longer fits an array.
\<close>

lemma levels_even_space_underflow:
  "levels_even_space (- 538) rnd = Inl ZeroDivisionError"
  "levels_even_space (- 537) rnd = Inr [0]"
  "levels_even_space 30 rnd = Inl ValueError"
  "levels_even_space 538 rnd = Inl ZeroDivisionError"
  by (simp_all add: levels_even_space_def even_space_step_def alphabet_power_def ALPHABET_def
        round_to_zero_def double_overflow_def np_arange_0_1_def)

subsection \<open>The claims at sample inputs\<close>

text \<open>The dwell policies at the mean 10 and the sample draws.\<close>

theorem dwell_policies_witness:
  "DWELL_call ''fixed'' (PyInt 10) sample_draws = Inr (PyInt 10)
   \<and> (\<exists>m\<ge>0. DWELL_call ''normal'' (PyInt 10) sample_draws = Inr (PyInt m))
   \<and> (\<exists>m\<ge>0. DWELL_call ''gamma'' (PyInt 10) sample_draws = Inr (PyInt m))
   \<and> (\<exists>m\<ge>0. DWELL_call ''poisson'' (PyInt 10) sample_draws = Inr (PyInt m))"
proof -
  have b: "\<bar>num_val (PyInt 10)\<bar> \<le> 9 * 10 ^ 18"
    "0 \<le> num_val (PyInt 10) \<and> num_val (PyInt 10) \<le> 9 * 10 ^ 18"
    by simp_all
  have g: "(0 < num_val (PyInt 10) \<or> PyInt 10 = PyInt 0)
           \<and> gamma_value sample_draws = Finite (5 / 2)"
    by (simp add: sample_draws_def)
  note t = dwell_policies[of sample_draws "PyInt 10"]
  from t have "DWELL_call ''fixed'' (PyInt 10) sample_draws = Inr (PyInt 10)"
    by (simp add: np_round_of_int)
  moreover from t b(1)
  have "\<exists>m\<ge>0. DWELL_call ''normal'' (PyInt 10) sample_draws = Inr (PyInt m)" by blast
  moreover from t b(2)
  have "\<forall>g\<ge>0. (0 < num_val (PyInt 10) \<or> PyInt 10 = PyInt 0)
               \<and> gamma_value sample_draws = Finite g \<longrightarrow>
           (\<exists>m\<ge>0. DWELL_call ''gamma'' (PyInt 10) sample_draws = Inr (PyInt m))" by blast
  with g have "\<exists>m\<ge>0. DWELL_call ''gamma'' (PyInt 10) sample_draws = Inr (PyInt m)"
    by (metis divide_nonneg_nonneg zero_le_numeral)
  moreover from t b(2)
  have "\<exists>m\<ge>0. DWELL_call ''poisson'' (PyInt 10) sample_draws = Inr (PyInt m)" by blast
  ultimately show ?thesis by blast
qed

text \<open>
  C6 as stated fails: the \<open>fixed\<close> policy returns the float 2.5 for the mean 2.5, which is
  not an integer, and \<open>-3\<close> for the mean \<open>-3\<close>, which is negative.
\<close>

theorem dwell_fixed_counterexample:
  "DWELL_call ''fixed'' (PyFloat (5 / 2)) sample_draws = Inr (PyFloat (5 / 2))
   \<and> DWELL_call ''fixed'' (PyInt (- 3)) sample_draws = Inr (PyInt (- 3))"
  by (simp add: DWELL_call_def DWELL_simps dwell_fixed_def)

text \<open>
  The constructor with the unknown dwell policy name \<open>uniform\<close>, and the other arguments
  at their defaults: KeyError.
\<close>

theorem pore_init_unknown_policy_witness:
  "Pore_init 5 (PyInt 10) (PyInt 250) ''normal'' ''uniform'' ''random'' zeros = Inl KeyError
   \<and> \<not> (\<exists>p. Pore_init 5 (PyInt 10) (PyInt 250) ''normal'' ''uniform'' ''random'' zeros = Inr p)"
proof -
  have "''normal'' \<notin> {''clean'', ''normal''}
         \<or> ''uniform'' \<notin> {''fixed'', ''normal'', ''gamma'', ''poisson''}
         \<or> ''random'' \<notin> {''even_space'', ''random'', ''resistor_model''}"
    by simp
  from pore_init_unknown_policy[OF this, of 5 "PyInt 10" "PyInt 250" zeros]
  show ?thesis by (simp add: reciprocal_250)
qed

text \<open>
  C7 as stated fails: with the k-mer length 0 and the default policies the constructor
  returns a pore, whose level table has one entry.
\<close>

theorem pore_init_kmer_len_counterexample:
  "Pore_init 0 (PyInt 10) (PyInt 250) ''normal'' ''poisson'' ''random'' zeros =
     Inr \<lparr>kmer_len = 0, mean_dwell_time = PyInt 10, noise_amplitude = 1 / 250,
          signal_noise_process = noise_normal, dwell_distribution_process = dwell_poisson,
          current_levels = [0]\<rparr>"
  by (simp add: Pore_init_def reciprocal_250 NOISE_simps DWELL_simps CURRENT_LEVELS_simps
        levels_random_def alphabet_power_def py_range_def zeros_def)

text \<open>The alignment theorem at the sample pore and the sequence \<open>ACG\<close>.\<close>

theorem generate_signal_alignment_witness:
  "\<exists>signal alignment.
     generate_signal sample_pore constant_draws zeros ''ACG'' = Inr (signal, alignment)
     \<and> int (length alignment) = int (length ''ACG'') - kmer_len sample_pore + 2
     \<and> alignment ! 0 = 0
     \<and> sorted alignment"
proof -
  have "1 \<le> kmer_len sample_pore" "kmer_len sample_pore \<le> int (length ''ACG'')"
    "set ''ACG'' \<subseteq> set ALPHABET"
    "length (current_levels sample_pore) = 4 ^ nat (kmer_len sample_pore)"
    "\<forall>i. \<exists>n. dwell_distribution_process sample_pore (mean_dwell_time sample_pore)
               (constant_draws i) = Inr (PyInt n)"
    "signal_noise_process sample_pore = noise_clean
         \<or> signal_noise_process sample_pore = noise_normal \<and> 0 \<le> noise_amplitude sample_pore"
    by (simp_all add: sample_pore_def ALPHABET_def dwell_fixed_def)
  then show ?thesis by (rule generate_signal_alignment)
qed

text \<open>The sample pore with \<open>kmer_len = 3\<close> on the one-symbol sequence \<open>A\<close>.\<close>

theorem generate_signal_short_sequence_witness:
  "generate_signal (sample_pore\<lparr>kmer_len := 3\<rparr>) constant_draws zeros ''A'' = Inr ([], [0])"
proof -
  have "int (length ''A'') < kmer_len (sample_pore\<lparr>kmer_len := 3\<rparr>)"
    "signal_noise_process (sample_pore\<lparr>kmer_len := 3\<rparr>) = noise_clean
     \<or> signal_noise_process (sample_pore\<lparr>kmer_len := 3\<rparr>) = noise_normal
        \<and> 0 \<le> noise_amplitude (sample_pore\<lparr>kmer_len := 3\<rparr>)"
    by (simp_all add: sample_pore_def)
  then show ?thesis by (rule generate_signal_short_sequence)
qed


section \<open>Properties of the decoder\<close>


subsection \<open>The signal of a clean pore with a fixed dwell\<close>

lemma nth_concat_blocks:
  "\<forall>x\<in>set xs. length (f x) = m \<Longrightarrow> i < length xs \<Longrightarrow> r < m \<Longrightarrow>
   concat (map f xs) ! (i * m + r) = f (xs ! i) ! r"
proof (induction xs arbitrary: i)
  case Nil
  then show ?case by simp
next
  case (Cons x xs)
  show ?case
  proof (cases i)
    case 0
    with Cons.prems show ?thesis by (simp add: nth_append)
  next
    case (Suc i')
    with Cons.prems have "concat (map f xs) ! (i' * m + r) = f (xs ! i') ! r"
      by (intro Cons.IH) simp_all
    moreover have "Suc i' * m + r = length (f x) + (i' * m + r)" using Cons.prems(1) by simp
    ultimately show ?thesis using Suc
      by (simp only: list.map concat.simps nth_append_length_plus nth_Cons_Suc)
  qed
qed






lemma block_signal_nth:
  assumes "j < n" "r < dn"
  shows "block_signal lv dn n ! (j * dn + r) = lv j"
proof -
  have "concat (map (\<lambda>j. replicate dn (lv j)) [0..<n]) ! (j * dn + r)
          = replicate dn (lv ([0..<n] ! j)) ! r"
    using assms by (intro nth_concat_blocks) simp_all
  with assms show ?thesis by (simp add: block_signal_def)
qed

lemma block_signal_nth_div:
  assumes "x < n * dn"
  shows "block_signal lv dn n ! x = lv (x div dn)"
proof -
  from assms have dn: "0 < dn" by (cases dn) simp_all
  have "x div dn < n" using assms dn by (simp add: less_mult_imp_div_less)
  moreover have "x mod dn < dn" using dn by simp
  ultimately have "block_signal lv dn n ! (x div dn * dn + x mod dn) = lv (x div dn)"
    by (rule block_signal_nth)
  then show ?thesis by simp
qed





subsection \<open>Events and means of such a signal\<close>







subsection \<open>Nearest level, k-mer labels and the edit distance\<close>












subsection \<open>End-to-end reconstruction\<close>




lemma even_space_2:
  "levels_even_space 2 rnd =
     Inr [0, 1 / 16, 1 / 8, 3 / 16, 1 / 4, 5 / 16, 3 / 8, 7 / 16,
          1 / 2, 9 / 16, 5 / 8, 11 / 16, 3 / 4, 13 / 16, 7 / 8, 15 / 16]"
  by (simp add: levels_even_space_def even_space_step_def alphabet_power_def ALPHABET_def
        round_to_zero_def np_arange_0_1_def upt_conv_Cons)

lemma two_mer_pore_constructed:
  "Pore_init 2 (PyInt 3) (PyInt 250) ''clean'' ''fixed'' ''even_space'' zeros = Inr two_mer_pore"
  by (simp add: Pore_init_def reciprocal_250 NOISE_simps DWELL_simps CURRENT_LEVELS_simps
        even_space_2 two_mer_pore_def)

lemma two_mer_table:
  "kmer_table two_mer_pore =
     Inr [(''AA'', 0), (''AC'', 1 / 16), (''AG'', 1 / 8), (''AT'', 3 / 16),
          (''CA'', 1 / 4), (''CC'', 5 / 16), (''CG'', 3 / 8), (''CT'', 7 / 16),
          (''GA'', 1 / 2), (''GC'', 9 / 16), (''GG'', 5 / 8), (''GT'', 11 / 16),
          (''TA'', 3 / 4), (''TC'', 13 / 16), (''TG'', 7 / 8), (''TT'', 15 / 16)]"
  by (simp add: kmer_table_def two_mer_pore_def numeral_2_eq_2)



end
